theory Spec2Isabelle
  imports Complex_Main "HOL-Library.Sublist"
begin

section \<open>Library functions the script relies on\<close>

text \<open>
  The script \<^verbatim>\<open>Scripts/base_functions.py\<close> is written against pandas. The parts of
  the Python and pandas libraries it calls are modelled here, each by an executable
  function.  Strings are lists of characters, floating point numbers are rationals, and
  an exception raised by the source is a value of \<open>error\<close>.
\<close>

datatype error =
    NameError | AttributeError | TypeError | ValueError | IndexError | EOFError
  | KeyError | FileNotFoundError

subsection \<open>Regular-expression search, as \<^verbatim>\<open>Series.str.contains\<close> performs it\<close>

text \<open>
  \<^verbatim>\<open>Series.str.contains(pat)\<close> is called with its default \<^verbatim>\<open>regex=True\<close>, so
  \<open>pat\<close> is a regular expression handed to \<^verbatim>\<open>re.search\<close>.  The patterns the script
  passes are \<^verbatim>\<open>C18 C20 C24 C28 H3+\<close> and the three column names
  \<^verbatim>\<open>d 2H/1H\<close>, \<^verbatim>\<open>d 13C/12C\<close>, \<^verbatim>\<open>Area All\<close>, \<^verbatim>\<open>Component\<close>; the only
  metacharacter among them is the postfix \<^verbatim>\<open>+\<close> (one or more repetitions of the
  preceding character), so a pattern is compiled to a list of literal and repeated characters.
\<close>

datatype atom = Lit char | Plus char

fun compile_pat :: "string \<Rightarrow> atom list" where
  "compile_pat [] = []"
| "compile_pat [c] = [Lit c]"
| "compile_pat (c # d # cs) =
     (if d = CHR ''+'' then Plus c # compile_pat cs else Lit c # compile_pat (d # cs))"

fun match_here :: "atom list \<Rightarrow> string \<Rightarrow> bool" where
  "match_here [] s = True"
| "match_here (Lit c # ps) [] = False"
| "match_here (Lit c # ps) (x # xs) = (x = c \<and> match_here ps xs)"
| "match_here (Plus c # ps) [] = False"
| "match_here (Plus c # ps) (x # xs) =
     (x = c \<and> (match_here (Plus c # ps) xs \<or> match_here ps xs))"

fun re_search :: "atom list \<Rightarrow> string \<Rightarrow> bool" where
  "re_search ps [] = match_here ps []"
| "re_search ps (x # xs) = (match_here ps (x # xs) \<or> re_search ps xs)"

definition str_contains :: "string \<Rightarrow> string \<Rightarrow> bool" where
  "str_contains pat s = re_search (compile_pat pat) s"

subsection \<open>\<^verbatim>\<open>Series.isin\<close>, \<^verbatim>\<open>Series.unique\<close>\<close>

text \<open>A cell of a text column is a string or missing (\<^verbatim>\<open>None\<close>, \<^verbatim>\<open>pd.NA\<close>, NaN).
  \<^verbatim>\<open>isin\<close> is false on a missing cell.\<close>

type_synonym cell = "string option"

definition isin :: "cell \<Rightarrow> string list \<Rightarrow> bool" where
  "isin c vs = (case c of None \<Rightarrow> False | Some s \<Rightarrow> s \<in> set vs)"

definition isna :: "cell \<Rightarrow> bool" where
  "isna c = (c = None)"

text \<open>\<^verbatim>\<open>unique\<close> keeps the first occurrence of every value, in order of appearance;
  all missing values count as one value.\<close>

fun unique :: "'a list \<Rightarrow> 'a list" where
  "unique [] = []"
| "unique (x # xs) = x # unique (filter (\<lambda>y. y \<noteq> x) xs)"

subsection \<open>Strings: \<^verbatim>\<open>strip\<close>, \<^verbatim>\<open>lower\<close>, \<^verbatim>\<open>split\<close>, \<^verbatim>\<open>int\<close>\<close>

definition is_space :: "char \<Rightarrow> bool" where
  "is_space c \<longleftrightarrow> (let n = (of_char c :: nat) in (9 \<le> n \<and> n \<le> 13) \<or> (28 \<le> n \<and> n \<le> 32))"

definition strip :: "string \<Rightarrow> string" where
  "strip s = rev (dropWhile is_space (rev (dropWhile is_space s)))"

definition lower_char :: "char \<Rightarrow> char" where
  "lower_char c =
     (let n = (of_char c :: nat) in if 65 \<le> n \<and> n \<le> 90 then char_of (n + 32) else c)"

definition lower :: "string \<Rightarrow> string" where
  "lower s = map lower_char s"

text \<open>\<^verbatim>\<open>s.split(",")\<close>: the pieces between the separators; one piece when there is
  no separator, also for the empty string.\<close>

fun split :: "char \<Rightarrow> string \<Rightarrow> string list" where
  "split sep [] = [[]]"
| "split sep (c # cs) =
     (if c = sep then [] # split sep cs
      else (case split sep cs of [] \<Rightarrow> [[c]] | p # ps \<Rightarrow> (c # p) # ps))"

text \<open>\<^verbatim>\<open>int(s)\<close> on text: surrounding blanks are dropped, then an optional sign and
  decimal digits, where single underscores may separate digits.  Anything else raises
  \<^verbatim>\<open>ValueError\<close>, here \<open>None\<close>.\<close>

definition is_digit :: "char \<Rightarrow> bool" where
  "is_digit c \<longleftrightarrow> (let n = (of_char c :: nat) in 48 \<le> n \<and> n \<le> 57)"

definition digit_val :: "char \<Rightarrow> nat" where
  "digit_val c = of_char c - 48"

fun digits_acc :: "nat \<Rightarrow> string \<Rightarrow> nat option" where
  "digits_acc n [] = Some n"
| "digits_acc n (c # cs) =
     (if is_digit c then digits_acc (10 * n + digit_val c) cs
      else if c = CHR ''_'' then
        (case cs of
           [] \<Rightarrow> None
         | d # ds \<Rightarrow> if is_digit d then digits_acc (10 * n + digit_val d) ds else None)
      else None)"

definition py_digits :: "string \<Rightarrow> nat option" where
  "py_digits s =
     (case s of [] \<Rightarrow> None
      | c # cs \<Rightarrow> if is_digit c then digits_acc (digit_val c) cs else None)"

definition py_int :: "string \<Rightarrow> int option" where
  "py_int s =
     (case strip s of
        [] \<Rightarrow> None
      | c # cs \<Rightarrow>
          if c = CHR ''-'' then map_option (\<lambda>n. - int n) (py_digits cs)
          else if c = CHR ''+'' then map_option int (py_digits cs)
          else map_option int (py_digits (c # cs)))"

subsection \<open>Positional access \<^verbatim>\<open>iloc\<close>\<close>

text \<open>A negative position counts from the end; a position outside the table raises
  \<^verbatim>\<open>IndexError\<close>.\<close>

definition iloc :: "'a list \<Rightarrow> int \<Rightarrow> error + 'a" where
  "iloc xs i =
     (if 0 \<le> i \<and> i < int (length xs) then Inr (xs ! nat i)
      else if i < 0 \<and> - int (length xs) \<le> i then Inr (xs ! nat (int (length xs) + i))
      else Inl IndexError)"

subsection \<open>The operator's terminal and the run log\<close>

text \<open>
  The terminal is the list of lines the operator will type and the list of prompts and
  messages written so far; \<^verbatim>\<open>input\<close> writes its prompt and takes the next line, and
  raises \<^verbatim>\<open>EOFError\<close> when no line is left.  The run log is the list of entries
  appended so far (the time stamp of an entry is left out).  Folders and figures written
  on the way are effects outside the tables and are not part of the state.
\<close>

datatype message =
    AskDetect
  | AskRtValues
  | InvalidCount
  | NotSelected
  | InvalidResponse
  | MissingColumn string
  | AskChoice string string string

datatype log_entry =
    LinearityCount nat
  | DriftCount nat
  | FirstTwoIgnored
  | OptedIn
  | OptedOut
  | ChainsIdentified "cell list"

record world =
  stdin :: "string list"
  stdout :: "message list"
  logfile :: "log_entry list"

definition input :: "message \<Rightarrow> world \<Rightarrow> error + (string \<times> world)" where
  "input prompt w =
     (case stdin w of
        [] \<Rightarrow> Inl EOFError
      | l # ls \<Rightarrow> Inr (l, w\<lparr>stdin := ls, stdout := stdout w @ [prompt]\<rparr>))"

definition print :: "message \<Rightarrow> world \<Rightarrow> world" where
  "print m w = w\<lparr>stdout := stdout w @ [m]\<rparr>"

definition append_to_log :: "string \<Rightarrow> log_entry \<Rightarrow> world \<Rightarrow> world" where
  "append_to_log log_file_path e w = w\<lparr>logfile := logfile w @ [e]\<rparr>"

text \<open>
  Functions the script takes from elsewhere: the recognisers of an affirmative and of a
  negative answer (module \<^verbatim>\<open>queries\<close>, not part of the script), \<^verbatim>\<open>datetime.strptime\<close>
  (the text, then the format; \<open>None\<close> where it raises \<^verbatim>\<open>ValueError\<close>),
  \<^verbatim>\<open>float\<close> on text (\<open>None\<close> where it raises \<^verbatim>\<open>ValueError\<close>), and the
  arithmetic of the machine.  A floating point number is the rational number it stands
  for (infinities and NaN are left out); an operation on floating point numbers is the
  exact operation followed by \<open>float_round\<close>, the rounding to the nearest floating
  point number, and a comparison is exact.
\<close>

record lib =
  pos_response :: "string \<Rightarrow> bool"
  neg_response :: "string \<Rightarrow> bool"
  strptime :: "string \<Rightarrow> string \<Rightarrow> int option"
  pyfloat :: "string \<Rightarrow> rat option"
  float_round :: "rat \<Rightarrow> rat"

text \<open>What the statements below ask of the rounding: it keeps the order, leaves a
  rounded number as it is, is symmetric around 0 and leaves 1 as it is.  Rounding to
  the nearest floating point number has these properties.\<close>

definition rounding :: "(rat \<Rightarrow> rat) \<Rightarrow> bool" where
  "rounding f \<longleftrightarrow>
     (\<forall>x y. x \<le> y \<longrightarrow> f x \<le> f y) \<and> (\<forall>x. f (f x) = f x) \<and> (\<forall>x. f (- x) = - f x) \<and> f 1 = 1"

section \<open>The run table\<close>

text \<open>
  A peak record carries the columns the script reads by a fixed name: \<^verbatim>\<open>Identifier 1\<close>,
  \<^verbatim>\<open>Date\<close>, \<^verbatim>\<open>Time\<close>, \<^verbatim>\<open>Rt\<close>.  In the table as read from the export
  (\<open>raw_row\<close>) the remaining columns are cells under the table's header.  After
  normalisation the script reads only \<^verbatim>\<open>chain\<close>, the parsed timestamp
  \<^verbatim>\<open>date-time_true\<close> and, for the figure of a near-tie, \<^verbatim>\<open>Area All\<close> of them
  (\<open>row\<close>); \<open>Area_All\<close> is \<open>None\<close> in a table without a column of that name.  A
  timestamp is a number of seconds.  An empty field of the export is read as a missing
  value; in \<open>Date\<close> and \<open>Time\<close> the empty text stands for it.
\<close>

record base_row =
  Identifier_1 :: string
  Date :: string
  Time :: string
  Rt :: rat

record raw_row = base_row +
  cells :: "cell list"

record row = base_row +
  chain :: cell
  date_time_true :: "int option"
  Area_All :: "cell option"

record frame =
  columns :: "string list"
  rows :: "raw_row list"

text \<open>\<^verbatim>\<open>date2num\<close> turns a timestamp into days since the epoch; a missing timestamp
  stays missing.  The column \<^verbatim>\<open>date-time\<close> is computed once from
  \<^verbatim>\<open>date-time_true\<close> and never written again, so it is a function of the row.\<close>

definition date2num :: "int \<Rightarrow> rat" where
  "date2num t = of_int t / 86400"

definition date_time :: "row \<Rightarrow> rat option" where
  "date_time r = map_option date2num (date_time_true r)"

section \<open>Segregation of standards and samples (\<^verbatim>\<open>import_data\<close>, lines 91 to 110)\<close>

definition has_pair :: "string \<Rightarrow> string \<Rightarrow> row \<Rightarrow> bool" where
  "has_pair a b r \<longleftrightarrow> str_contains a (Identifier_1 r) \<and> str_contains b (Identifier_1 r)"

definition linearity_rows :: "row list \<Rightarrow> row list" where
  "linearity_rows df =
     filter (\<lambda>r. isin (chain r) [''C20'', ''C28'']) (filter (has_pair ''C20'' ''C28'') df)"

definition drift_candidates :: "row list \<Rightarrow> row list" where
  "drift_candidates df =
     filter (\<lambda>r. isin (chain r) [''C18'', ''C24'']) (filter (has_pair ''C18'' ''C24'') df)"

text \<open>\<^verbatim>\<open>sort_values("date-time_true")\<close>: ascending, rows without a timestamp last.
  pandas' default sort is not stable; the order chosen here among rows of equal
  timestamp is one of the admissible ones, and no statement below depends on it.\<close>

definition sort_values :: "row list \<Rightarrow> row list" where
  "sort_values df =
     sort_key (\<lambda>r. the (date_time_true r)) (filter (\<lambda>r. date_time_true r \<noteq> None) df)
     @ filter (\<lambda>r. date_time_true r = None) df"

definition drift_rows :: "row list \<Rightarrow> row list" where
  "drift_rows df =
     (let drift_std = sort_values (drift_candidates df);
          unique_time_signatures = unique (map date_time drift_std);
          time_signatures_to_remove = take 2 unique_time_signatures
      in filter (\<lambda>r. date_time r \<notin> set time_signatures_to_remove) drift_std)"

definition unknown_rows :: "row list \<Rightarrow> row list" where
  "unknown_rows df =
     (let unknown = filter (\<lambda>r. \<not> has_pair ''C18'' ''C24'' r) df;
          unknown = filter (\<lambda>r. \<not> has_pair ''C20'' ''C28'' r) unknown
      in filter (\<lambda>r. \<not> str_contains ''H3+'' (Identifier_1 r)) unknown)"

text \<open>The order \<^verbatim>\<open>sort_values\<close> and \<^verbatim>\<open>unique\<close> put timestamps in: \<open>earlier a b\<close>
  when \<open>a\<close> comes strictly before \<open>b\<close>, a missing timestamp after every number.\<close>

fun earlier :: "'a::linorder option \<Rightarrow> 'a option \<Rightarrow> bool" where
  "earlier (Some a) (Some b) = (a < b)"
| "earlier (Some a) None = True"
| "earlier None b = False"

section \<open>\<^verbatim>\<open>make_correction_df\<close> and \<^verbatim>\<open>try_parse_date\<close>\<close>

definition make_correction_df :: "(string \<times> int) list" where
  "make_correction_df =
     [(''Drift'', 0), (''Linearity'', 0), (''VSMOW'', 0), (''Methylation'', 0)]"

definition formats :: "string list" where
  "formats = [''%m/%d/%Y %H:%M:%S'', ''%m/%d/%y %H:%M:%S'', ''%Y-%m-%d %H:%M:%S'',
              ''%d/%m/%Y %H:%M:%S'']"

fun try_formats :: "lib \<Rightarrow> string list \<Rightarrow> string \<Rightarrow> int option" where
  "try_formats L [] date_str = None"
| "try_formats L (fmt # fmts) date_str =
     (case strptime L date_str fmt of
        Some d \<Rightarrow> Some d
      | None \<Rightarrow> try_formats L fmts date_str)"

definition try_parse_date :: "lib \<Rightarrow> string \<Rightarrow> int option" where
  "try_parse_date L date_str = try_formats L formats date_str"

section \<open>Schema normalisation (\<^verbatim>\<open>import_data\<close>, lines 72 to 88)\<close>

text \<open>
  \<open>columns\<close> lists the header of the cell columns; the four columns read by a fixed
  name are no match for any of the three patterns and are never renamed.
  \<^verbatim>\<open>iso_rat\<close> is bound only for the two analysis modes; any other mode reaches
  \<^verbatim>\<open>str(iso_rat)\<close> with the name unbound.
\<close>

definition new_name :: "string \<Rightarrow> string list" where
  "new_name isotope = [isotope, ''area'', ''chain'']"

definition iso_rat :: "string \<Rightarrow> error + string" where
  "iso_rat isotope =
     (if isotope = ''dC'' then Inr ''d 13C/12C''
      else if isotope = ''dD'' then Inr ''d 2H/1H''
      else Inl NameError)"

definition rename :: "string \<Rightarrow> string \<Rightarrow> frame \<Rightarrow> frame" where
  "rename old new df = df\<lparr>columns := map (\<lambda>c. if c = old then new else c) (columns df)\<rparr>"

text \<open>\<^verbatim>\<open>df[name] = pd.NA\<close> on a name that is not a column appends the column.\<close>

definition add_na_column :: "string \<Rightarrow> frame \<Rightarrow> frame" where
  "add_na_column name df =
     df\<lparr>columns := columns df @ [name],
        rows := map (\<lambda>r. r\<lparr>cells := cells r @ [None]\<rparr>) (rows df)\<rparr>"

fun rename_loop :: "string list \<Rightarrow> string list \<Rightarrow> nat \<Rightarrow> frame \<Rightarrow> world \<Rightarrow> frame \<times> world" where
  "rename_loop [] new x df w = (df, w)"
| "rename_loop (name # names) new x df w =
     (if name \<in> set (columns df)
      then rename_loop names new (x + 1)
             (rename (hd (filter (str_contains name) (columns df))) (new ! x) df) w
      else rename_loop names new x (add_na_column name df) (print (MissingColumn name) w))"

definition normalize :: "frame \<Rightarrow> string \<Rightarrow> world \<Rightarrow> error + (frame \<times> world)" where
  "normalize df isotope w =
     (case iso_rat isotope of
        Inl e \<Rightarrow> Inl e
      | Inr name0 \<Rightarrow> Inr (rename_loop [name0, ''Area All'', ''Component''] (new_name isotope) 0 df w))"

text \<open>
  The attribute \<^verbatim>\<open>df.chain\<close> is the column named \<^verbatim>\<open>chain\<close>; it raises
  \<^verbatim>\<open>AttributeError\<close> when the header has no such column.  With two columns of that
  name pandas hands back a table instead of a column, and the filter built from it
  raises \<^verbatim>\<open>ValueError\<close>.
\<close>

definition chain_column :: "frame \<Rightarrow> error + nat" where
  "chain_column df =
     (case filter (\<lambda>i. columns df ! i = ''chain'') [0 ..< length (columns df)] of
        [] \<Rightarrow> Inl AttributeError
      | [i] \<Rightarrow> Inr i
      | _ \<Rightarrow> Inl ValueError)"

definition nth_cell :: "cell list \<Rightarrow> nat \<Rightarrow> cell" where
  "nth_cell cs i = (if i < length cs then cs ! i else None)"

fun column_cell :: "string list \<Rightarrow> string \<Rightarrow> cell list \<Rightarrow> cell option" where
  "column_cell [] name cs = None"
| "column_cell (c # cols) name cs =
     (if c = name then Some (nth_cell cs 0) else column_cell cols name (drop 1 cs))"

definition to_row :: "lib \<Rightarrow> string list \<Rightarrow> nat \<Rightarrow> raw_row \<Rightarrow> row" where
  "to_row L cols i r =
     \<lparr>Identifier_1 = Identifier_1 r, Date = Date r, Time = Time r, Rt = Rt r,
      chain = nth_cell (cells r) i,
      date_time_true = try_parse_date L (Date r @ '' '' @ Time r),
      Area_All = column_cell cols ''Area All'' (cells r)\<rparr>"

section \<open>\<^verbatim>\<open>ask_user_for_rt\<close>\<close>

type_synonym rt_dict = "(string \<times> rat option) list"

definition chain_lengths :: "string list" where
  "chain_lengths = [''C16'', ''C18'', ''C20'', ''C22'', ''C24'', ''C26'', ''C28'', ''C30'', ''C32'']"

text \<open>The dictionary comprehension: the entries in the order of \<open>chain_lengths\<close>;
  \<^verbatim>\<open>float\<close> raising on one token aborts the whole comprehension.\<close>

fun build_rt_dict :: "lib \<Rightarrow> (string \<times> string) list \<Rightarrow> error + rt_dict" where
  "build_rt_dict L [] = Inr []"
| "build_rt_dict L ((label, rt) # rest) =
     (if lower (strip rt) = ''none''
      then (case build_rt_dict L rest of Inl e \<Rightarrow> Inl e | Inr d \<Rightarrow> Inr ((label, None) # d))
      else (case pyfloat L (strip rt) of
              None \<Rightarrow> Inl ValueError
            | Some v \<Rightarrow>
                (case build_rt_dict L rest of Inl e \<Rightarrow> Inl e | Inr d \<Rightarrow> Inr ((label, Some v) # d))))"

function ask_user_for_rt :: "lib \<Rightarrow> string \<Rightarrow> world \<Rightarrow> error + (rt_dict option \<times> world)" where
  "ask_user_for_rt L log_file_path w =
     (case input AskDetect w of
        Inl e \<Rightarrow> Inl e
      | Inr (line, w1) \<Rightarrow>
          (let response = lower (strip line) in
           if pos_response L response then
             (case input AskRtValues (append_to_log log_file_path OptedIn w1) of
                Inl e \<Rightarrow> Inl e
              | Inr (line2, w2) \<Rightarrow>
                  (let rt_values = split CHR '','' line2 in
                   if length rt_values = length chain_lengths
                   then (case build_rt_dict L (zip chain_lengths rt_values) of
                           Inl e \<Rightarrow> Inl e
                         | Inr rt_dict \<Rightarrow> Inr (Some rt_dict, w2))
                   else ask_user_for_rt L log_file_path (print InvalidCount w2)))
           else if neg_response L response then
             Inr (None, print NotSelected (append_to_log log_file_path OptedOut w1))
           else ask_user_for_rt L log_file_path (print InvalidResponse w1)))"
  by pat_completeness auto
termination
  by (relation "measure (\<lambda>(L, p, w). length (stdin w))")
     (auto simp: input_def print_def append_to_log_def split: list.splits)

section \<open>\<^verbatim>\<open>closest_rt\<close> and \<^verbatim>\<open>process_dataframe\<close>\<close>

text \<open>A comparison with a missing value is false: no row is at a missing time.\<close>

definition at_time :: "string \<Rightarrow> row \<Rightarrow> bool" where
  "at_time time_val r \<longleftrightarrow> time_val \<noteq> [] \<and> Time r = time_val"

text \<open>The minimum of an empty column is NaN, and no row compares below it.\<close>

definition closest_rt :: "lib \<Rightarrow> row list \<Rightarrow> string \<Rightarrow> rat \<Rightarrow> rat \<Rightarrow> row list" where
  "closest_rt L df time_val target_rt threshold =
     (let sample_df = filter (at_time time_val) df;
          differences = map (\<lambda>r. \<bar>float_round L (Rt r - target_rt)\<bar>) sample_df
      in if differences = [] then []
         else (let min_diff = min_list differences
               in filter (\<lambda>r. \<bar>float_round L (Rt r - target_rt)\<bar>
                                \<le> float_round L (min_diff * float_round L (1 + threshold)))
                    sample_df))"

text \<open>\<^verbatim>\<open>df.loc[(df["Time"] == time_val) & (df["Rt"] == correct_rt), "chain"] = chain\<close>\<close>

definition assign_chain :: "row list \<Rightarrow> string \<Rightarrow> rat \<Rightarrow> string \<Rightarrow> row list" where
  "assign_chain df time_val correct_rt c =
     map (\<lambda>r. if at_time time_val r \<and> Rt r = correct_rt then r\<lparr>chain := Some c\<rparr> else r) df"

text \<open>
  Lines 206 to 235, the figure of a near-tie, as far as they can end the run: the trace
  reads the column \<^verbatim>\<open>Area All\<close> (\<^verbatim>\<open>KeyError\<close> in a table without it), and the
  figure is saved in the figure folder under a name made of the sample identifier and
  the chain label (\<^verbatim>\<open>FileNotFoundError\<close> when one of them holds a slash, the name
  then pointing into a folder that does not exist).
\<close>

definition close_matches_figure :: "row list \<Rightarrow> string \<Rightarrow> string \<Rightarrow> error option" where
  "close_matches_figure sample_df sample_id label =
     (if list_ex (\<lambda>r. Area_All r = None) sample_df then Some KeyError
      else if CHR ''/'' \<in> set sample_id \<or> CHR ''/'' \<in> set label then Some FileNotFoundError
      else None)"

text \<open>The body of the inner loop, for one entry of the reference table.  The call
  \<^verbatim>\<open>closest_rt(df, time_val, rt)\<close> leaves the threshold at its default 0.05.\<close>

definition classify_entry ::
  "lib \<Rightarrow> row list \<Rightarrow> string \<Rightarrow> string \<Rightarrow> string \<times> rat option \<Rightarrow> world
     \<Rightarrow> error + (row list \<times> world)" where
  "classify_entry L df time_val sample_id entry w =
     (case snd entry of
        None \<Rightarrow> Inr (df, w)
      | Some rt \<Rightarrow>
          (let closest_rows = closest_rt L df time_val rt (float_round L (5 / 100)) in
           if length closest_rows = 1 then
             Inr (assign_chain df time_val (Rt (hd closest_rows)) (fst entry), w)
           else if length closest_rows > 1 then
             (case close_matches_figure (filter (at_time time_val) df) sample_id (fst entry) of
                Some e \<Rightarrow> Inl e
              | None \<Rightarrow>
                  (case input (AskChoice (fst entry) sample_id time_val) w of
                     Inl e \<Rightarrow> Inl e
                   | Inr (line, w1) \<Rightarrow>
                       (let choice = lower (strip line) in
                        if choice = ''none'' then Inr (df, w1)
                        else (case py_int choice of
                                None \<Rightarrow> Inl ValueError
                              | Some n \<Rightarrow>
                                  (case iloc closest_rows (n - 1) of
                                     Inl e \<Rightarrow> Inl e
                                   | Inr r \<Rightarrow>
                                       Inr (assign_chain df time_val (Rt r) (fst entry), w1))))))
           else Inr (df, w)))"

fun chains_loop ::
  "lib \<Rightarrow> rt_dict \<Rightarrow> string \<Rightarrow> string \<Rightarrow> row list \<Rightarrow> world \<Rightarrow> error + (row list \<times> world)" where
  "chains_loop L [] time_val sample_id df w = Inr (df, w)"
| "chains_loop L (entry # entries) time_val sample_id df w =
     (case classify_entry L df time_val sample_id entry w of
        Inl e \<Rightarrow> Inl e
      | Inr (df1, w1) \<Rightarrow> chains_loop L entries time_val sample_id df1 w1)"

fun times_loop ::
  "lib \<Rightarrow> string list \<Rightarrow> rt_dict \<Rightarrow> row list \<Rightarrow> world \<Rightarrow> error + (row list \<times> world)" where
  "times_loop L [] rt_dict df w = Inr (df, w)"
| "times_loop L (time_val # time_vals) rt_dict df w =
     (case iloc (filter (at_time time_val) df) 0 of
        Inl e \<Rightarrow> Inl e
      | Inr first \<Rightarrow>
          (case chains_loop L rt_dict time_val (Identifier_1 first) df w of
             Inl e \<Rightarrow> Inl e
           | Inr (df1, w1) \<Rightarrow> times_loop L time_vals rt_dict df1 w1))"

definition process_dataframe ::
  "lib \<Rightarrow> row list \<Rightarrow> rt_dict option \<Rightarrow> string \<Rightarrow> string \<Rightarrow> world
     \<Rightarrow> error + (row list \<times> world)" where
  "process_dataframe L df rt_dict folder_path log_file_path w =
     (case rt_dict of
        None \<Rightarrow> Inr (df, w)
      | Some rts \<Rightarrow>
          (let df0 = map (\<lambda>r. r\<lparr>chain := None\<rparr>) df;
               unique_times = unique (map Time df0)
           in case times_loop L unique_times rts df0 w of
                Inl e \<Rightarrow> Inl e
              | Inr (df1, w1) \<Rightarrow>
                  (let export_df = filter (\<lambda>r. isin (chain r) chain_lengths) df1
                   in Inr (export_df,
                           append_to_log log_file_path
                             (ChainsIdentified (unique (map chain export_df))) w1))))"

section \<open>\<^verbatim>\<open>import_data\<close>\<close>

text \<open>
  A call binds its positional arguments to the parameters of the definition.
  \<^verbatim>\<open>process_dataframe\<close> is defined with the four parameters
  \<^verbatim>\<open>df, rt_dict, folder_path, log_file_path\<close>, none with a default, so a call with
  another number of arguments raises \<^verbatim>\<open>TypeError\<close> before the body runs.
\<close>

datatype pyval = Table "row list" | RtDict "rt_dict option" | Str string

definition call_process_dataframe ::
  "lib \<Rightarrow> pyval list \<Rightarrow> world \<Rightarrow> error + (row list \<times> world)" where
  "call_process_dataframe L args w =
     (case args of
        [Table df, RtDict rt_dict, Str folder_path, Str log_file_path] \<Rightarrow>
          process_dataframe L df rt_dict folder_path log_file_path w
      | _ \<Rightarrow> Inl TypeError)"

text \<open>\<^verbatim>\<open>if rt_dict:\<close> holds for a dictionary with at least one key.\<close>

definition truthy :: "rt_dict option \<Rightarrow> bool" where
  "truthy d = (case d of None \<Rightarrow> False | Some es \<Rightarrow> es \<noteq> [])"

definition whitelist :: "string list" where
  "whitelist = [''C16'', ''C18'', ''C20'', ''C22'', ''C24'', ''C24'', ''C26'', ''C28'', ''C30'', ''C32'']"

text \<open>
  Lines 71 to 110: normalisation, timestamps and segregation, with the three log
  entries.  Line 86 applies \<^verbatim>\<open>try_parse_date\<close> row by row: on a table without rows the
  application yields a table and the assignment of the column raises
  \<^verbatim>\<open>ValueError\<close>; a missing date or time cannot be joined to text and raises
  \<^verbatim>\<open>TypeError\<close>.  The count of drift standards is taken before the first two runs are
  removed.
\<close>

definition segregate ::
  "lib \<Rightarrow> frame \<Rightarrow> string \<Rightarrow> string \<Rightarrow> world
     \<Rightarrow> error + ((row list \<times> row list \<times> row list) \<times> world)" where
  "segregate L raw log_file_path isotope w =
     (case normalize raw isotope w of
        Inl e \<Rightarrow> Inl e
      | Inr (df0, w0) \<Rightarrow>
          if rows df0 = [] then Inl ValueError
          else if list_ex (\<lambda>r. Date r = [] \<or> Time r = []) (rows df0) then Inl TypeError
          else
          (case chain_column df0 of
             Inl e \<Rightarrow> Inl e
           | Inr i \<Rightarrow>
               (let df = map (to_row L (columns df0) i) (rows df0);
                    linearity_std = linearity_rows df;
                    w1 = append_to_log log_file_path
                           (LinearityCount (length (filter (\<lambda>r. chain r = Some ''C28'') linearity_std))) w0;
                    w2 = append_to_log log_file_path
                           (DriftCount (length (filter (\<lambda>r. chain r = Some ''C24'') (drift_candidates df)))) w1;
                    drift_std = drift_rows df;
                    w3 = append_to_log log_file_path FirstTwoIgnored w2;
                    unknown = unknown_rows df
                in Inr ((linearity_std, drift_std, unknown), w3))))"

text \<open>
  Lines 119 to 122.  The loop binds its own variable \<open>i\<close> to each of the three tables in
  turn and then to the table without the unlabeled rows; \<open>drop_na_loop\<close> gives the
  values \<open>i\<close> takes.  The names \<open>unknown\<close>, \<open>drift_std\<close> and \<open>linearity_std\<close> stay bound
  to the tables as they were, and these are returned.
\<close>

definition drop_na_loop :: "row list list \<Rightarrow> row list list" where
  "drop_na_loop tables = map (\<lambda>i. filter (\<lambda>r. \<not> isna (chain r)) i) tables"

definition return_tables ::
  "row list \<Rightarrow> row list \<Rightarrow> row list
     \<Rightarrow> row list \<times> row list \<times> row list \<times> (string \<times> int) list" where
  "return_tables unknown drift_std linearity_std =
     (let i = drop_na_loop [unknown, drift_std, linearity_std];
          correction_log = make_correction_df
      in (linearity_std, drift_std, unknown, correction_log))"

definition import_data ::
  "lib \<Rightarrow> frame \<Rightarrow> string \<Rightarrow> string \<Rightarrow> string \<Rightarrow> world
     \<Rightarrow> error + ((row list \<times> row list \<times> row list \<times> (string \<times> int) list) \<times> world)" where
  "import_data L raw folder_path log_file_path isotope w =
     (case segregate L raw log_file_path isotope w of
        Inl e \<Rightarrow> Inl e
      | Inr ((linearity_std, drift_std, unknown), w1) \<Rightarrow>
          (case ask_user_for_rt L log_file_path w1 of
             Inl e \<Rightarrow> Inl e
           | Inr (rt_dict, w2) \<Rightarrow>
               if truthy rt_dict then
                 (case call_process_dataframe L
                         [Table unknown, RtDict rt_dict, Str folder_path] w2 of
                    Inl e \<Rightarrow> Inl e
                  | Inr (unknown1, w3) \<Rightarrow>
                      (let unknown2 = filter (\<lambda>r. chain r \<noteq> Some ''None'') unknown1 in
                       case call_process_dataframe L
                              [Table linearity_std, RtDict rt_dict, Str folder_path] w3 of
                         Inl e \<Rightarrow> Inl e
                       | Inr (linearity_std1, w4) \<Rightarrow>
                           (case call_process_dataframe L
                                   [Table drift_std, RtDict rt_dict, Str folder_path] w4 of
                              Inl e \<Rightarrow> Inl e
                            | Inr (drift_std1, w5) \<Rightarrow>
                                Inr (return_tables unknown2 drift_std1 linearity_std1, w5))))
               else
                 (let unknown1 = filter (\<lambda>r. isin (chain r) whitelist) unknown
                  in Inr (return_tables unknown1 drift_std linearity_std, w2))))"

section \<open>Example runs\<close>

text \<open>
  Concrete inputs on which the statements below are run.  \<open>example_lib\<close> supplies
  stand-ins for the functions the script takes from elsewhere: answers \<^verbatim>\<open>y\<close>,
  \<^verbatim>\<open>yes\<close>, \<^verbatim>\<open>n\<close>, \<^verbatim>\<open>no\<close>; a \<^verbatim>\<open>strptime\<close> that accepts the third format only
  and reads the time of day in seconds (the example rows are all of one day); a
  \<^verbatim>\<open>float\<close> that reads whole numbers; exact arithmetic, where nothing is rounded.
\<close>

definition clock_seconds :: "string \<Rightarrow> int option" where
  "clock_seconds s =
     (case map py_digits (split CHR '':'' s) of
        [Some h, Some m, Some sec] \<Rightarrow> Some (3600 * int h + 60 * int m + int sec)
      | _ \<Rightarrow> None)"

definition example_lib :: lib where
  "example_lib =
     \<lparr>pos_response = (\<lambda>s. s = ''y'' \<or> s = ''yes''),
      neg_response = (\<lambda>s. s = ''n'' \<or> s = ''no''),
      strptime = (\<lambda>s fmt. if fmt = ''%Y-%m-%d %H:%M:%S''
                           then clock_seconds (drop 11 s) else None),
      pyfloat = (\<lambda>s. map_option of_int (py_int s)),
      float_round = (\<lambda>x. x)\<rparr>"

definition terminal :: "string list \<Rightarrow> world" where
  "terminal ls = \<lparr>stdin = ls, stdout = [], logfile = []\<rparr>"

definition peak :: "string \<Rightarrow> string \<Rightarrow> rat \<Rightarrow> cell \<Rightarrow> int option \<Rightarrow> row" where
  "peak ident t rt c stamp =
     \<lparr>Identifier_1 = ident, Date = ''2024-01-07'', Time = t, Rt = rt,
      chain = c, date_time_true = stamp, Area_All = Some (Some ''12.5'')\<rparr>"

definition drift_peak :: "int \<Rightarrow> row" where
  "drift_peak t = peak ''C18/C24 std'' ''10:00:00'' 500 (Some ''C18'') (Some t)"

definition example_run :: "row list" where
  "example_run =
     [drift_peak 5, drift_peak 4,
      peak ''C20/C28 lin'' ''10:10:00'' 600 (Some ''C20'') (Some 6),
      drift_peak 1, drift_peak 2,
      peak ''H3+ factor'' ''09:00:00'' 100 None (Some 0),
      peak ''C20/C28 lin'' ''10:10:00'' 610 (Some ''C16'') (Some 6),
      peak ''sample 7'' ''11:00:00'' 520 (Some ''C22'') (Some 7),
      drift_peak 3]"

definition h3_row :: row where
  "h3_row = peak ''H3 factor'' ''09:05:00'' 100 None (Some 0)"

definition raw_peak :: "string \<Rightarrow> string \<Rightarrow> rat \<Rightarrow> cell \<Rightarrow> raw_row" where
  "raw_peak ident t rt c =
     \<lparr>Identifier_1 = ident, Date = ''2024-01-07'', Time = t, Rt = rt,
      cells = [Some ''-150.2'', Some ''12.5'', c]\<rparr>"

definition example_frame :: frame where
  "example_frame =
     \<lparr>columns = [''d 2H/1H'', ''Area All'', ''Component''],
      rows = [raw_peak ''C18/C24 std'' ''08:00:00'' 500 (Some ''C18''),
              raw_peak ''C18/C24 std'' ''08:30:00'' 500 (Some ''C18''),
              raw_peak ''C18/C24 std'' ''09:00:00'' 510 (Some ''C24''),
              raw_peak ''C20/C28 lin'' ''09:30:00'' 600 (Some ''C20''),
              raw_peak ''sample 7'' ''10:00:00'' 520 (Some ''C22''),
              raw_peak ''sample 7'' ''10:00:00'' 530 None]\<rparr>"

definition frame_without_ratio :: frame where
  "frame_without_ratio =
     \<lparr>columns = [''Area All'', ''Component''],
      rows = [\<lparr>Identifier_1 = ''sample 7'', Date = ''2024-01-07'', Time = ''10:00:00'',
               Rt = 520, cells = [Some ''12.5'', Some ''C22'']\<rparr>]\<rparr>"

definition all_none :: string where
  "all_none = ''none,none,none,none,none,none,none,none,none''"

text \<open>Two groups of one injection: a row at the reference retention time 500 beside a
  row at 500.01, and two rows at distance 1 and 1.01 from it.\<close>

definition exact_group :: "row list" where
  "exact_group =
     [peak ''sample 7'' ''11:00:00'' 500 None (Some 7),
      peak ''sample 7'' ''11:00:00'' (500 + 1 / 100) None (Some 7)]"

definition near_tie_group :: "row list" where
  "near_tie_group =
     [peak ''sample 8'' ''11:30:00'' 499 None (Some 8),
      peak ''sample 8'' ''11:30:00'' (501 + 1 / 100) None (Some 8)]"

section \<open>Facts about the library functions\<close>

lemma unique_set: "set (unique xs) = set xs"
  by (induction xs rule: unique.induct) auto

lemma match_here_Plus_last: "match_here [Plus c] s \<longleftrightarrow> (\<exists>xs. s = c # xs)"
  by (induction s) auto

lemma re_search_iff: "re_search ps s \<longleftrightarrow> (\<exists>t. suffix t s \<and> match_here ps t)"
  by (induction s) (auto simp: suffix_Cons)

lemma match_here_lits: "match_here (map Lit p) s \<longleftrightarrow> prefix p s"
proof (induction p arbitrary: s)
  case Nil
  then show ?case by simp
next
  case (Cons c p)
  then show ?case by (cases s) auto
qed

lemma sublist_iff_suffix_prefix: "sublist p s \<longleftrightarrow> (\<exists>t. suffix t s \<and> prefix p t)"
  by (auto simp: sublist_def suffix_def prefix_def)

text \<open>The pattern \<^verbatim>\<open>H3+\<close> finds every text that holds \<^verbatim>\<open>H3\<close>, with or without a
  plus sign after it; a three-letter pattern without \<^verbatim>\<open>+\<close> is found where it occurs.\<close>

lemma str_contains_H3: "str_contains ''H3+'' s \<longleftrightarrow> sublist ''H3'' s"
proof -
  have "match_here [Lit CHR ''H'', Plus CHR ''3''] t \<longleftrightarrow> prefix ''H3'' t" for t
    by (cases t) (auto simp: match_here_Plus_last prefix_def)
  then show ?thesis
    by (simp add: str_contains_def re_search_iff sublist_iff_suffix_prefix)
qed

lemma str_contains_literal:
  "d \<noteq> CHR ''+'' \<Longrightarrow> e \<noteq> CHR ''+'' \<Longrightarrow> str_contains [c, d, e] s \<longleftrightarrow> sublist [c, d, e] s"
  using match_here_lits [of "[c, d, e]"]
  by (simp add: str_contains_def re_search_iff sublist_iff_suffix_prefix)

section \<open>Segregation\<close>

lemma sort_values_set: "set (sort_values xs) = set xs"
  by (auto simp: sort_values_def)

lemma drift_rows_subset: "set (drift_rows df) \<subseteq> set (drift_candidates df)"
  by (auto simp: drift_rows_def Let_def sort_values_set)

lemma drift_candidates_iff:
  "r \<in> set (drift_candidates df) \<longleftrightarrow>
     r \<in> set df \<and> has_pair ''C18'' ''C24'' r \<and> isin (chain r) [''C18'', ''C24'']"
  by (auto simp: drift_candidates_def)

lemma linearity_rows_iff:
  "r \<in> set (linearity_rows df) \<longleftrightarrow>
     r \<in> set df \<and> has_pair ''C20'' ''C28'' r \<and> isin (chain r) [''C20'', ''C28'']"
  by (auto simp: linearity_rows_def)

lemma unknown_rows_iff:
  "r \<in> set (unknown_rows df) \<longleftrightarrow>
     r \<in> set df \<and> \<not> has_pair ''C18'' ''C24'' r \<and> \<not> has_pair ''C20'' ''C28'' r \<and>
     \<not> str_contains ''H3+'' (Identifier_1 r)"
  by (auto simp: unknown_rows_def)

lemma pair_labels_disjoint:
  "isin c [''C20'', ''C28''] \<Longrightarrow> \<not> isin c [''C18'', ''C24'']"
  by (auto simp: isin_def split: option.splits)

text \<open>
  C7.  No row is in two of the three outputs: a linearity row and a drift row differ in
  their chain label, and an unknown row carries neither marker pair.  Rows may be in none
  of them: a row with the calibration marker and no marker pair, and a row with the
  linearity marker pair whose label is outside that pair.
\<close>

theorem segregation_exclusive:
  "set (linearity_rows df) \<inter> set (drift_rows df) = {} \<and>
   set (linearity_rows df) \<inter> set (unknown_rows df) = {} \<and>
   set (drift_rows df) \<inter> set (unknown_rows df) = {} \<and>
   (str_contains ''H3+'' (Identifier_1 r) \<and> \<not> has_pair ''C20'' ''C28'' r \<and>
      \<not> has_pair ''C18'' ''C24'' r
      \<longrightarrow> r \<notin> set (linearity_rows df) \<union> set (drift_rows df) \<union> set (unknown_rows df)) \<and>
   (has_pair ''C20'' ''C28'' r \<and> \<not> has_pair ''C18'' ''C24'' r \<and>
      \<not> isin (chain r) [''C20'', ''C28'']
      \<longrightarrow> r \<notin> set (linearity_rows df) \<union> set (drift_rows df) \<union> set (unknown_rows df))"
proof -
  have d: "x \<in> set (drift_rows df) \<Longrightarrow>
             has_pair ''C18'' ''C24'' x \<and> isin (chain x) [''C18'', ''C24'']" for x
    using drift_rows_subset [of df] by (auto simp: drift_candidates_iff)
  have 1: "set (linearity_rows df) \<inter> set (drift_rows df) = {}"
    using d pair_labels_disjoint by (fastforce simp: linearity_rows_iff)
  have 2: "set (linearity_rows df) \<inter> set (unknown_rows df) = {}"
    by (auto simp: linearity_rows_iff unknown_rows_iff)
  have 3: "set (drift_rows df) \<inter> set (unknown_rows df) = {}"
    using d by (auto simp: unknown_rows_iff)
  have 4: "str_contains ''H3+'' (Identifier_1 r) \<and> \<not> has_pair ''C20'' ''C28'' r \<and>
      \<not> has_pair ''C18'' ''C24'' r
      \<longrightarrow> r \<notin> set (linearity_rows df) \<union> set (drift_rows df) \<union> set (unknown_rows df)"
    using d [of r] by (auto simp: linearity_rows_iff unknown_rows_iff)
  have 5: "has_pair ''C20'' ''C28'' r \<and> \<not> has_pair ''C18'' ''C24'' r \<and>
      \<not> isin (chain r) [''C20'', ''C28'']
      \<longrightarrow> r \<notin> set (linearity_rows df) \<union> set (drift_rows df) \<union> set (unknown_rows df)"
    using d [of r] by (auto simp: linearity_rows_iff unknown_rows_iff)
  from 1 2 3 4 5 show ?thesis by blast
qed

theorem segregation_exclusive_witness:
  "set (linearity_rows example_run) \<inter> set (drift_rows example_run) = {} \<and>
   set (linearity_rows example_run) \<inter> set (unknown_rows example_run) = {} \<and>
   set (drift_rows example_run) \<inter> set (unknown_rows example_run) = {} \<and>
   linearity_rows example_run \<noteq> [] \<and> drift_rows example_run \<noteq> [] \<and>
   unknown_rows example_run \<noteq> [] \<and>
   example_run ! 5 \<notin> set (linearity_rows example_run) \<union> set (drift_rows example_run)
                      \<union> set (unknown_rows example_run) \<and>
   example_run ! 6 \<notin> set (linearity_rows example_run) \<union> set (drift_rows example_run)
                      \<union> set (unknown_rows example_run)"
proof -
  have ne: "linearity_rows example_run \<noteq> [] \<and> drift_rows example_run \<noteq> [] \<and>
            unknown_rows example_run \<noteq> []"
    by code_simp
  have h5: "str_contains ''H3+'' (Identifier_1 (example_run ! 5)) \<and>
            \<not> has_pair ''C20'' ''C28'' (example_run ! 5) \<and>
            \<not> has_pair ''C18'' ''C24'' (example_run ! 5)"
    by code_simp
  have h6: "has_pair ''C20'' ''C28'' (example_run ! 6) \<and>
            \<not> has_pair ''C18'' ''C24'' (example_run ! 6) \<and>
            \<not> isin (chain (example_run ! 6)) [''C20'', ''C28'']"
    by code_simp
  from segregation_exclusive [of example_run "example_run ! 5"]
       segregation_exclusive [of example_run "example_run ! 6"] ne h5 h6
  show ?thesis by blast
qed

lemma unknown_rows_literal:
  "r \<in> set (unknown_rows df) \<longleftrightarrow>
     r \<in> set df \<and>
     \<not> (sublist ''C18'' (Identifier_1 r) \<and> sublist ''C24'' (Identifier_1 r)) \<and>
     \<not> (sublist ''C20'' (Identifier_1 r) \<and> sublist ''C28'' (Identifier_1 r)) \<and>
     \<not> sublist ''H3'' (Identifier_1 r)"
  by (simp add: unknown_rows_iff has_pair_def str_contains_literal str_contains_H3)

text \<open>
  C8.  The unknown samples are the rows that carry neither marker pair and for which the
  search for \<^verbatim>\<open>H3+\<close> fails.  That search reads \<^verbatim>\<open>H3+\<close> as a regular expression,
  so it succeeds on every identifier that holds \<^verbatim>\<open>H3\<close> (\<open>unknown_rows_literal\<close>).  The
  row \<open>h3_row\<close>, identifier \<^verbatim>\<open>H3 factor\<close>, holds none of the three markers as the claim
  names them, and is nevertheless not among the unknown samples.
\<close>

theorem unknown_rows_H3_regex:
  "\<not> sublist ''H3+'' (Identifier_1 h3_row) \<and>
   \<not> (sublist ''C18'' (Identifier_1 h3_row) \<and> sublist ''C24'' (Identifier_1 h3_row)) \<and>
   \<not> (sublist ''C20'' (Identifier_1 h3_row) \<and> sublist ''C28'' (Identifier_1 h3_row)) \<and>
   unknown_rows [h3_row] = []"
  by code_simp

subsection \<open>Order of the outputs\<close>

lemma earlier_irrefl: "\<not> earlier a a"
  by (cases a) auto

lemma earlier_total: "\<not> earlier b a \<Longrightarrow> a \<noteq> b \<Longrightarrow> earlier a b"
  by (cases a; cases b) auto

lemma earlier_asym: "earlier a b \<Longrightarrow> \<not> earlier b a"
  by (cases a; cases b) auto

lemma date2num_less: "date2num a < date2num b \<longleftrightarrow> a < b"
  by (simp add: date2num_def divide_less_cancel)

lemma keys_sorted: "sorted_wrt (\<lambda>a b. \<not> earlier b a) (map date_time (sort_values xs))"
proof -
  let ?A = "sort_key (\<lambda>r. the (date_time_true r)) (filter (\<lambda>r. date_time_true r \<noteq> None) xs)"
  let ?N = "filter (\<lambda>r. date_time_true r = None) xs"
  have "sorted (map (\<lambda>r. the (date_time_true r)) ?A)"
    by (rule sorted_sort_key)
  then have s1: "sorted_wrt (\<lambda>x y. the (date_time_true x) \<le> the (date_time_true y)) ?A"
    by (simp add: sorted_map)
  have A: "sorted_wrt (\<lambda>x y. \<not> earlier (date_time y) (date_time x)) ?A"
  proof (rule sorted_wrt_mono_rel [OF _ s1])
    fix x y
    assume "x \<in> set ?A" "y \<in> set ?A" "the (date_time_true x) \<le> the (date_time_true y)"
    then show "\<not> earlier (date_time y) (date_time x)"
      by (auto simp: date_time_def date2num_less)
  qed
  have N: "sorted_wrt (\<lambda>x y. \<not> earlier (date_time y) (date_time x)) ?N"
    by (induction xs) (auto simp: date_time_def)
  have AN: "\<forall>x\<in>set ?A. \<forall>y\<in>set ?N. \<not> earlier (date_time y) (date_time x)"
    by (auto simp: date_time_def)
  from A N AN show ?thesis
    unfolding sort_values_def by (simp add: sorted_wrt_map sorted_wrt_append)
qed

lemma sort_values_sorted:
  "sorted_wrt (\<lambda>a b. \<not> earlier (date_time b) (date_time a)) (sort_values xs)"
  using keys_sorted [of xs] by (simp add: sorted_wrt_map)

lemma sort_values_id:
  "sorted_wrt (\<lambda>a b. earlier (date_time a) (date_time b)) xs \<Longrightarrow> sort_values xs = xs"
proof (induction xs)
  case Nil
  then show ?case by (simp add: sort_values_def)
next
  case (Cons x xs)
  then have IH: "sort_values xs = xs" by simp
  show ?case
  proof (cases "date_time_true x")
    case None
    with Cons.prems have "xs = []"
      by (cases xs) (auto simp: date_time_def)
    with None show ?thesis by (simp add: sort_values_def)
  next
    case (Some t)
    let ?k = "\<lambda>r. the (date_time_true r)"
    let ?ys = "filter (\<lambda>r. date_time_true r \<noteq> None) xs"
    from Cons.prems Some have "\<forall>y\<in>set ?ys. ?k x \<le> ?k y"
      by (auto simp: date_time_def date2num_less)
    then have "\<forall>y\<in>set (sort_key ?k ?ys). ?k x \<le> ?k y" by simp
    then have "insort_key ?k x (sort_key ?k ?ys) = x # sort_key ?k ?ys"
      by (simp add: insort_is_Cons)
    with Some IH show ?thesis by (simp add: sort_values_def)
  qed
qed

text \<open>
  C4, as the claim states it, fails on the drift output: the drift rows of
  \<open>example_run\<close> stand in the order of the timestamps 5, 4, 1, 2, 3, and the output
  lists 3, 4, 5.
\<close>

theorem drift_order_counterexample:
  "\<not> subseq (drift_rows example_run) example_run"
  by code_simp

text \<open>
  C4, amended.  The linearity and the unknown output keep the order of the input.  The
  drift output is in ascending order of the timestamps, rows without a timestamp last,
  and holds rows of the input only; it keeps the order of the input when the drift rows
  of the input already stand in strictly ascending order of their timestamps.
\<close>

theorem segregation_order:
  "subseq (linearity_rows df) df \<and> subseq (unknown_rows df) df \<and>
   sorted_wrt (\<lambda>a b. \<not> earlier (date_time b) (date_time a)) (drift_rows df) \<and>
   set (drift_rows df) \<subseteq> set df \<and>
   (sorted_wrt (\<lambda>a b. earlier (date_time a) (date_time b)) (drift_candidates df)
      \<longrightarrow> subseq (drift_rows df) df)"
proof -
  have f: "subseq (filter P (filter Q xs)) xs" for P Q and xs :: "row list"
    by (rule subseq_order.trans [OF subseq_filter_left subseq_filter_left])
  have lin: "subseq (linearity_rows df) df"
    unfolding linearity_rows_def by (rule f)
  have unk: "subseq (unknown_rows df) df"
    unfolding unknown_rows_def Let_def
    by (rule subseq_order.trans [OF subseq_filter_left f])
  have srt: "sorted_wrt (\<lambda>a b. \<not> earlier (date_time b) (date_time a)) (drift_rows df)"
    unfolding drift_rows_def Let_def by (rule sorted_wrt_filter [OF sort_values_sorted])
  have sub: "set (drift_rows df) \<subseteq> set df"
    using drift_rows_subset [of df] by (auto simp: drift_candidates_iff)
  have cand: "subseq (drift_candidates df) df"
    unfolding drift_candidates_def by (rule f)
  have "subseq (drift_rows df) df"
    if "sorted_wrt (\<lambda>a b. earlier (date_time a) (date_time b)) (drift_candidates df)"
  proof -
    from that have "sort_values (drift_candidates df) = drift_candidates df"
      by (rule sort_values_id)
    then have "subseq (drift_rows df) (drift_candidates df)"
      by (simp add: drift_rows_def Let_def)
    from this cand show ?thesis by (rule subseq_order.trans)
  qed
  with lin unk srt sub show ?thesis by blast
qed

theorem segregation_order_witness:
  "subseq (linearity_rows (rev example_run)) (rev example_run) \<and>
   subseq (unknown_rows (rev example_run)) (rev example_run) \<and>
   subseq (drift_rows (sort_values example_run)) (sort_values example_run) \<and>
   drift_rows (sort_values example_run) = drift_rows example_run \<and>
   drift_rows example_run \<noteq> []"
proof -
  have s: "sorted_wrt (\<lambda>a b. earlier (date_time a) (date_time b))
             (drift_candidates (sort_values example_run))"
    by code_simp
  have e: "drift_rows (sort_values example_run) = drift_rows example_run \<and>
           drift_rows example_run \<noteq> []"
    by code_simp
  from segregation_order [of "rev example_run"] segregation_order [of "sort_values example_run"] s e
  show ?thesis by blast
qed

subsection \<open>The first two drift runs\<close>

lemma unique_strict:
  "sorted_wrt (\<lambda>a b. \<not> earlier b a) K \<Longrightarrow> sorted_wrt earlier (unique K)"
proof (induction K rule: unique.induct)
  case 1
  then show ?case by simp
next
  case (2 x xs)
  from "2.prems" have "sorted_wrt (\<lambda>a b. \<not> earlier b a) (filter (\<lambda>y. y \<noteq> x) xs)"
    by (simp add: sorted_wrt_filter)
  with "2.IH" have "sorted_wrt earlier (unique (filter (\<lambda>y. y \<noteq> x) xs))" .
  moreover from "2.prems" have "\<forall>y\<in>set (filter (\<lambda>y. y \<noteq> x) xs). earlier x y"
    by (auto intro: earlier_total)
  ultimately show ?case by (simp add: unique_set)
qed

lemma take2_strict:
  assumes "sorted_wrt earlier U" and "k \<in> set U"
  shows "k \<notin> set (take 2 U) \<longleftrightarrow>
         (\<exists>a b. a \<noteq> b \<and> a \<in> set U \<and> b \<in> set U \<and> earlier a k \<and> earlier b k)"
proof (cases U)
  case Nil
  with assms show ?thesis by simp
next
  case (Cons x V)
  show ?thesis
  proof (cases V)
    case Nil
    with Cons assms show ?thesis by (auto simp: earlier_irrefl)
  next
    case (Cons y W)
    with \<open>U = x # V\<close> have U: "U = x # y # W" by simp
    from assms(1) U have xy: "earlier x y" and xW: "\<forall>w\<in>set W. earlier x w"
      and yW: "\<forall>w\<in>set W. earlier y w" by auto
    have take: "set (take 2 U) = {x, y}" using U by (simp add: numeral_2_eq_2)
    show ?thesis
    proof
      assume "k \<notin> set (take 2 U)"
      with take assms(2) U have "k \<in> set W" by auto
      with xW yW have "earlier x k" "earlier y k" by auto
      moreover from xy have "x \<noteq> y" using earlier_irrefl by auto
      ultimately show "\<exists>a b. a \<noteq> b \<and> a \<in> set U \<and> b \<in> set U \<and> earlier a k \<and> earlier b k"
        using U by auto
    next
      assume "\<exists>a b. a \<noteq> b \<and> a \<in> set U \<and> b \<in> set U \<and> earlier a k \<and> earlier b k"
      then obtain a b where ab: "a \<noteq> b" "a \<in> set U" "b \<in> set U" "earlier a k" "earlier b k"
        by blast
      have nx: "\<not> earlier c x" if "c \<in> set U" for c
        using that U xy xW by (auto simp: earlier_irrefl dest: earlier_asym)
      have ny: "c = x" if "c \<in> set U" "earlier c y" for c
        using that U yW by (auto simp: earlier_irrefl dest: earlier_asym)
      from ab nx have "k \<noteq> x" by auto
      moreover from ab ny have "k \<noteq> y" by auto
      ultimately show "k \<notin> set (take 2 U)" using take by simp
    qed
  qed
qed

lemma drift_rows_iff:
  "r \<in> set (drift_rows df) \<longleftrightarrow>
     r \<in> set (drift_candidates df) \<and>
     (\<exists>a b. a \<noteq> b \<and> a \<in> date_time ` set (drift_candidates df) \<and>
            b \<in> date_time ` set (drift_candidates df) \<and>
            earlier a (date_time r) \<and> earlier b (date_time r))"
proof (cases "r \<in> set (drift_candidates df)")
  case False
  then show ?thesis by (simp add: drift_rows_def Let_def sort_values_set)
next
  case True
  let ?S = "sort_values (drift_candidates df)"
  let ?U = "unique (map date_time ?S)"
  have U: "sorted_wrt earlier ?U" by (rule unique_strict [OF keys_sorted])
  have setU: "set ?U = date_time ` set (drift_candidates df)"
    by (simp add: unique_set sort_values_set)
  with True have "date_time r \<in> set ?U" by simp
  from take2_strict [OF U this] setU True show ?thesis
    by (simp add: drift_rows_def Let_def sort_values_set)
qed

text \<open>
  C6.  When the timestamps of the drift rows are five numbers \<open>t1 < t2 < t3 < t4 < t5\<close>,
  the drift output has no row with timestamp \<open>t1\<close> or \<open>t2\<close> and has every drift row
  with timestamp \<open>t3\<close>, \<open>t4\<close> or \<open>t5\<close>.  In general a drift row is in the output exactly
  when two different timestamps of drift rows are earlier than its own: the rows that
  carry one of the two earliest timestamps are the ones left out.
\<close>

theorem drift_exclusion:
  "(t1 < t2 \<and> t2 < t3 \<and> t3 < t4 \<and> t4 < t5 \<and>
    date_time ` set (drift_candidates df) = {Some t1, Some t2, Some t3, Some t4, Some t5}
    \<longrightarrow> (\<forall>r\<in>set (drift_rows df). date_time r \<noteq> Some t1 \<and> date_time r \<noteq> Some t2) \<and>
        (\<forall>r\<in>set (drift_candidates df).
           date_time r \<in> {Some t3, Some t4, Some t5} \<longrightarrow> r \<in> set (drift_rows df))) \<and>
   (r \<in> set (drift_rows df) \<longleftrightarrow>
      r \<in> set (drift_candidates df) \<and>
      (\<exists>a b. a \<noteq> b \<and> a \<in> date_time ` set (drift_candidates df) \<and>
             b \<in> date_time ` set (drift_candidates df) \<and>
             earlier a (date_time r) \<and> earlier b (date_time r)))"
proof -
  have scenario:
    "(\<forall>r\<in>set (drift_rows df). date_time r \<noteq> Some t1 \<and> date_time r \<noteq> Some t2) \<and>
     (\<forall>r\<in>set (drift_candidates df).
        date_time r \<in> {Some t3, Some t4, Some t5} \<longrightarrow> r \<in> set (drift_rows df))"
    if lt: "t1 < t2" "t2 < t3" "t3 < t4" "t4 < t5"
      and keys: "date_time ` set (drift_candidates df) = {Some t1, Some t2, Some t3, Some t4, Some t5}"
  proof (intro conjI ballI impI)
    fix x
    assume x: "x \<in> set (drift_rows df)"
    then have "\<exists>a b. a \<noteq> b \<and>
      a \<in> {Some t1, Some t2, Some t3, Some t4, Some t5} \<and>
      b \<in> {Some t1, Some t2, Some t3, Some t4, Some t5} \<and>
      earlier a (date_time x) \<and> earlier b (date_time x)"
      by (simp add: drift_rows_iff keys)
    then obtain a b where ab: "a \<noteq> b"
      "a \<in> {Some t1, Some t2, Some t3, Some t4, Some t5}"
      "b \<in> {Some t1, Some t2, Some t3, Some t4, Some t5}"
      "earlier a (date_time x)" "earlier b (date_time x)"
      by (elim exE conjE)
    have first: "\<not> earlier c (Some t1)"
      if "c \<in> {Some t1, Some t2, Some t3, Some t4, Some t5}" for c
      using that lt by auto
    have second: "c = Some t1"
      if "c \<in> {Some t1, Some t2, Some t3, Some t4, Some t5}" "earlier c (Some t2)" for c
      using that lt by auto
    show "date_time x \<noteq> Some t1"
    proof
      assume "date_time x = Some t1"
      with ab(4) have "earlier a (Some t1)" by simp
      with first [OF ab(2)] show False by simp
    qed
    show "date_time x \<noteq> Some t2"
    proof
      assume eq: "date_time x = Some t2"
      have "a = Some t1"
        by (rule second [OF ab(2)]) (use ab(4) eq in simp)
      moreover have "b = Some t1"
        by (rule second [OF ab(3)]) (use ab(5) eq in simp)
      ultimately show False using ab(1) by simp
    qed
  next
    fix x
    assume x: "x \<in> set (drift_candidates df)"
      and t: "date_time x \<in> {Some t3, Some t4, Some t5}"
    from t lt have e: "earlier (Some t1) (date_time x)" "earlier (Some t2) (date_time x)"
      by auto
    from lt have n: "t1 \<noteq> t2" by simp
    have "\<exists>a b. a \<noteq> b \<and> a \<in> {Some t1, Some t2, Some t3, Some t4, Some t5} \<and>
            b \<in> {Some t1, Some t2, Some t3, Some t4, Some t5} \<and>
            earlier a (date_time x) \<and> earlier b (date_time x)"
      by (rule exI [of _ "Some t1"], rule exI [of _ "Some t2"]) (simp add: e n)
    with x show "x \<in> set (drift_rows df)"
      by (simp add: drift_rows_iff keys)
  qed
  show ?thesis
  proof (rule conjI)
    show "t1 < t2 \<and> t2 < t3 \<and> t3 < t4 \<and> t4 < t5 \<and>
      date_time ` set (drift_candidates df) = {Some t1, Some t2, Some t3, Some t4, Some t5}
      \<longrightarrow> (\<forall>r\<in>set (drift_rows df). date_time r \<noteq> Some t1 \<and> date_time r \<noteq> Some t2) \<and>
          (\<forall>r\<in>set (drift_candidates df).
             date_time r \<in> {Some t3, Some t4, Some t5} \<longrightarrow> r \<in> set (drift_rows df))"
    proof (rule impI)
      assume h: "t1 < t2 \<and> t2 < t3 \<and> t3 < t4 \<and> t4 < t5 \<and>
        date_time ` set (drift_candidates df) = {Some t1, Some t2, Some t3, Some t4, Some t5}"
      show "(\<forall>r\<in>set (drift_rows df). date_time r \<noteq> Some t1 \<and> date_time r \<noteq> Some t2) \<and>
          (\<forall>r\<in>set (drift_candidates df).
             date_time r \<in> {Some t3, Some t4, Some t5} \<longrightarrow> r \<in> set (drift_rows df))"
        by (rule scenario) (simp_all add: h)
    qed
  next
    show "r \<in> set (drift_rows df) \<longleftrightarrow>
      r \<in> set (drift_candidates df) \<and>
      (\<exists>a b. a \<noteq> b \<and> a \<in> date_time ` set (drift_candidates df) \<and>
             b \<in> date_time ` set (drift_candidates df) \<and>
             earlier a (date_time r) \<and> earlier b (date_time r))"
      by (rule drift_rows_iff)
  qed
qed

theorem drift_exclusion_witness:
  "drift_peak 1 \<notin> set (drift_rows example_run) \<and>
   drift_peak 2 \<notin> set (drift_rows example_run) \<and>
   drift_peak 3 \<in> set (drift_rows example_run) \<and>
   drift_peak 4 \<in> set (drift_rows example_run) \<and>
   drift_peak 5 \<in> set (drift_rows example_run)"
proof -
  have lt: "date2num 1 < date2num 2 \<and> date2num 2 < date2num 3 \<and> date2num 3 < date2num 4 \<and>
            date2num 4 < date2num 5"
    by (simp add: date2num_less)
  have c: "drift_candidates example_run =
             [drift_peak 5, drift_peak 4, drift_peak 1, drift_peak 2, drift_peak 3]"
    by code_simp
  have dt: "date_time (drift_peak t) = Some (date2num t)" for t
    by (simp add: date_time_def drift_peak_def peak_def)
  have keys: "date_time ` set (drift_candidates example_run) =
                {Some (date2num 1), Some (date2num 2), Some (date2num 3), Some (date2num 4),
                 Some (date2num 5)}"
    unfolding c by (auto simp: dt)
  have ne: "date2num 1 \<noteq> date2num 3" "date2num 1 \<noteq> date2num 4" "date2num 1 \<noteq> date2num 5"
           "date2num 2 \<noteq> date2num 3" "date2num 2 \<noteq> date2num 4" "date2num 2 \<noteq> date2num 5"
           "date2num 1 \<noteq> date2num 2"
    by (simp_all add: date2num_def)
  from drift_exclusion [of "date2num 1" "date2num 2" "date2num 3" "date2num 4" "date2num 5"
                          example_run "drift_peak 1"] lt keys
  have out: "\<forall>r\<in>set (drift_rows example_run).
               date_time r \<noteq> Some (date2num 1) \<and> date_time r \<noteq> Some (date2num 2)"
    and inn: "\<forall>r\<in>set (drift_candidates example_run).
               date_time r \<in> {Some (date2num 3), Some (date2num 4), Some (date2num 5)}
               \<longrightarrow> r \<in> set (drift_rows example_run)"
    by blast+
  from out have "drift_peak 1 \<notin> set (drift_rows example_run)"
    "drift_peak 2 \<notin> set (drift_rows example_run)"
    using dt by blast+
  moreover from inn have "drift_peak 3 \<in> set (drift_rows example_run)"
    "drift_peak 4 \<in> set (drift_rows example_run)" "drift_peak 5 \<in> set (drift_rows example_run)"
    unfolding c by (simp_all add: dt)
  ultimately show ?thesis by blast
qed

section \<open>Schema normalisation\<close>

text \<open>
  C5.  With the ratio, area and component columns all present under their exact names,
  the three columns are renamed to the canonical names.  When one is absent the code
  departs from the claim: the new column gets the name that was looked for, not the
  canonical one, and the counter into the canonical names is not advanced, so the columns
  after it take the wrong names.  For \<open>frame_without_ratio\<close> (no ratio column, mode
  \<^verbatim>\<open>dD\<close>) the area column becomes \<^verbatim>\<open>dD\<close>, the component column becomes
  \<^verbatim>\<open>area\<close>, no column is named \<^verbatim>\<open>chain\<close>, and \<^verbatim>\<open>import_data\<close> ends in an
  \<^verbatim>\<open>AttributeError\<close>.
\<close>

theorem normalize_missing_column:
  "map_sum id (\<lambda>p. columns (fst p)) (normalize example_frame ''dD'' (terminal []))
     = Inr [''dD'', ''area'', ''chain''] \<and>
   normalize frame_without_ratio ''dD'' (terminal [])
     = Inr (\<lparr>columns = [''dD'', ''area'', ''d 2H/1H''],
             rows = [\<lparr>Identifier_1 = ''sample 7'', Date = ''2024-01-07'', Time = ''10:00:00'',
                      Rt = 520, cells = [Some ''12.5'', Some ''C22'', None]\<rparr>]\<rparr>,
            \<lparr>stdin = [], stdout = [MissingColumn ''d 2H/1H''], logfile = []\<rparr>) \<and>
   import_data example_lib frame_without_ratio ''out'' ''out/Log file.txt'' ''dD''
       (terminal [''n''])
     = Inl AttributeError"
  by code_simp

section \<open>The orchestrator\<close>

declare ask_user_for_rt.simps [simp del]

lemma build_rt_dict_keys: "build_rt_dict L xs = Inr d \<Longrightarrow> map fst d = map fst xs"
  by (induction L xs arbitrary: d rule: build_rt_dict.induct)
     (auto split: if_splits sum.splits option.splits)

lemma ask_user_for_rt_keys:
  "ask_user_for_rt L lp w = Inr (Some d, w') \<Longrightarrow> map fst d = chain_lengths"
proof (induction L lp w arbitrary: d w' rule: ask_user_for_rt.induct)
  case (1 L lp w)
  note run = "1.prems" [unfolded ask_user_for_rt.simps [of L lp w]]
  show ?case
  proof (cases "input AskDetect w")
    case Inl
    with run show ?thesis by simp
  next
    case first: (Inr b)
    obtain line w1 where b: "b = (line, w1)" by (cases b)
    show ?thesis
    proof (cases "pos_response L (lower (strip line))")
      case yes: True
      show ?thesis
      proof (cases "input AskRtValues (append_to_log lp OptedIn w1)")
        case Inl
        with run first b yes show ?thesis by simp
      next
        case second: (Inr ba)
        obtain line2 w2 where ba: "ba = (line2, w2)" by (cases ba)
        show ?thesis
        proof (cases "length (split CHR '','' line2) = length chain_lengths")
          case True
          with run first b yes second ba
          obtain rd where "build_rt_dict L (zip chain_lengths (split CHR '','' line2)) = Inr rd"
            and "d = rd"
            by (auto simp: Let_def split: sum.splits)
          with True show ?thesis
            by (auto dest!: build_rt_dict_keys)
        next
          case False
          with run first b yes second ba
          have "ask_user_for_rt L lp (print InvalidCount w2) = Inr (Some d, w')"
            by (simp add: Let_def)
          with "1.IH"(1) [OF first b [symmetric] refl yes second ba [symmetric] refl False]
          show ?thesis .
        qed
      qed
    next
      case no: False
      show ?thesis
      proof (cases "neg_response L (lower (strip line))")
        case True
        with run first b no show ?thesis by (simp add: Let_def)
      next
        case False
        with run first b no
        have "ask_user_for_rt L lp (print InvalidResponse w1) = Inr (Some d, w')"
          by (simp add: Let_def)
        with "1.IH"(2) [OF first b [symmetric] refl no False]
        show ?thesis .
      qed
    qed
  qed
qed

lemma ask_user_for_rt_truthy:
  "ask_user_for_rt L lp w = Inr (rt, w') \<Longrightarrow> truthy rt \<longleftrightarrow> rt \<noteq> None"
proof (cases rt)
  case None
  then show ?thesis by (simp add: truthy_def)
next
  case (Some d)
  assume "ask_user_for_rt L lp w = Inr (rt, w')"
  with Some have "map fst d = chain_lengths" by (simp add: ask_user_for_rt_keys)
  then have "d \<noteq> []" by (auto simp: chain_lengths_def)
  with Some show ?thesis by (simp add: truthy_def)
qed

lemma isin_not_na: "isin c vs \<Longrightarrow> \<not> isna c"
  by (auto simp: isin_def isna_def split: option.splits)

lemma call_with_three_arguments:
  "call_process_dataframe L [a, b, c] w = Inl TypeError"
  by (simp add: call_process_dataframe_def split: pyval.splits list.splits)

lemma import_data_unfold:
  "import_data L raw fp lp isotope w =
     (case segregate L raw lp isotope w of
        Inl e \<Rightarrow> Inl e
      | Inr (tabs, w1) \<Rightarrow>
          (case ask_user_for_rt L lp w1 of
             Inl e \<Rightarrow> Inl e
           | Inr (rt, w2) \<Rightarrow>
               if rt \<noteq> None then Inl TypeError
               else Inr (return_tables (filter (\<lambda>r. isin (chain r) whitelist) (snd (snd tabs)))
                           (fst (snd tabs)) (fst tabs), w2)))"
  by (auto simp: import_data_def call_with_three_arguments Let_def ask_user_for_rt_truthy
           split: sum.splits prod.splits)

text \<open>
  C2.  \<^verbatim>\<open>import_data\<close> calls \<^verbatim>\<open>process_dataframe\<close> with three arguments, and every
  such call raises \<^verbatim>\<open>TypeError\<close>.  So when the tables were segregated and the operator
  opted into classification (the reference table is not \<^verbatim>\<open>None\<close>), \<^verbatim>\<open>import_data\<close>
  ends in \<^verbatim>\<open>TypeError\<close>; and whenever \<^verbatim>\<open>import_data\<close> returns, the operator had opted out.
\<close>

theorem import_data_opt_in_fails:
  "call_process_dataframe L [Table df, RtDict rt, Str fp] w0 = Inl TypeError \<and>
   (segregate L raw lp isotope w = Inr (tabs, w1) \<and> ask_user_for_rt L lp w1 = Inr (Some d, w2)
      \<longrightarrow> import_data L raw fp lp isotope w = Inl TypeError) \<and>
   (import_data L raw fp lp isotope w = Inr (res, w')
      \<longrightarrow> (\<exists>tabs w1. segregate L raw lp isotope w = Inr (tabs, w1) \<and>
                      ask_user_for_rt L lp w1 = Inr (None, w')))"
proof (intro conjI impI)
  show "call_process_dataframe L [Table df, RtDict rt, Str fp] w0 = Inl TypeError"
    by (rule call_with_three_arguments)
next
  assume "segregate L raw lp isotope w = Inr (tabs, w1) \<and>
          ask_user_for_rt L lp w1 = Inr (Some d, w2)"
  then show "import_data L raw fp lp isotope w = Inl TypeError"
    by (simp add: import_data_unfold)
next
  assume "import_data L raw fp lp isotope w = Inr (res, w')"
  then show "\<exists>tabs w1. segregate L raw lp isotope w = Inr (tabs, w1) \<and>
                       ask_user_for_rt L lp w1 = Inr (None, w')"
    by (auto simp: import_data_unfold split: sum.splits prod.splits if_splits)
qed

theorem import_data_opt_in_fails_witness:
  "import_data example_lib example_frame ''out'' ''out/Log file.txt'' ''dD''
       (terminal [''y'', all_none]) = Inl TypeError \<and>
   isl (segregate example_lib example_frame ''out/Log file.txt'' ''dD''
          (terminal [''y'', all_none])) = False"
proof -
  let ?w = "terminal [''y'', all_none]"
  let ?s = "segregate example_lib example_frame ''out/Log file.txt'' ''dD'' ?w"
  have s: "?s = Inr (projr ?s)" and ok: "isl ?s = False"
    by code_simp+
  have a: "ask_user_for_rt example_lib ''out/Log file.txt'' (snd (projr ?s))
             = Inr (Some (map (\<lambda>c. (c, None)) chain_lengths),
                    snd (projr (ask_user_for_rt example_lib ''out/Log file.txt'' (snd (projr ?s)))))"
    by code_simp
  from import_data_opt_in_fails
         [where L = example_lib and raw = example_frame and lp = "''out/Log file.txt''"
            and isotope = "''dD''" and w = ?w and fp = "''out''"
            and tabs = "fst (projr ?s)" and ?w1.0 = "snd (projr ?s)"
            and d = "map (\<lambda>c. (c, None)) chain_lengths"]
       s a ok
  show ?thesis by simp
qed

text \<open>
  C3.  The claim holds of no run with classification, and the step it names removes
  nothing.  On a run where the operator opts in, \<^verbatim>\<open>import_data\<close> ends in
  \<^verbatim>\<open>TypeError\<close> at the first call of \<^verbatim>\<open>process_dataframe\<close> and returns no table.
  The loop of lines 119 and 120 assigns the table without its unlabeled rows to the loop
  variable only: tables that hold an unlabeled row are returned with that row.
\<close>

theorem drop_loop_returns_unlabeled:
  "import_data example_lib example_frame ''out'' ''out/Log file.txt'' ''dD''
       (terminal [''y'', ''500,none,none,none,510,none,none,none,none''])
     = Inl TypeError \<and>
   isna (chain h3_row) \<and>
   drop_na_loop [[h3_row], [h3_row], [h3_row]] = [[], [], []] \<and>
   return_tables [h3_row] [h3_row] [h3_row]
     = ([h3_row], [h3_row], [h3_row], make_correction_df)"
  by code_simp

section \<open>The prompts\<close>

text \<open>
  C9, as the claim states it, fails at the near-tie prompt: the answer is handed to
  \<^verbatim>\<open>int\<close> as it is, and for the answer \<^verbatim>\<open>abc\<close> the classifier ends in
  \<^verbatim>\<open>ValueError\<close>.
\<close>

theorem near_tie_choice_counterexample:
  "length (closest_rt example_lib near_tie_group ''11:30:00'' 500 (5 / 100)) = 2 \<and>
   process_dataframe example_lib near_tie_group (Some [(''C16'', Some 500)]) ''out''
       ''out/Log file.txt'' (terminal [''abc''])
     = Inl ValueError"
  by code_simp

lemma input_Cons:
  "stdin w = l # ls \<Longrightarrow> input m w = Inr (l, w\<lparr>stdin := ls, stdout := stdout w @ [m]\<rparr>)"
  by (simp add: input_def)

text \<open>
  C9, amended.  An answer to the yes/no question that is recognised neither as yes nor as
  no, and a list of retention times with the wrong number of entries, are recoverable:
  the message is written and the question is asked again, from the yes/no question on,
  with the rest of the operator's lines; no default takes the place of the answer.  At
  the near-tie prompt (reached once the figure is drawn) an answer that is neither
  \<^verbatim>\<open>none\<close> nor a number is not asked for again: the classifier ends in
  \<^verbatim>\<open>ValueError\<close>.
\<close>

theorem invalid_input_handling:
  "(stdin w = l # ls \<and> \<not> pos_response L (lower (strip l)) \<and> \<not> neg_response L (lower (strip l))
      \<longrightarrow> ask_user_for_rt L lp w =
          ask_user_for_rt L lp
            (w\<lparr>stdin := ls, stdout := stdout w @ [AskDetect, InvalidResponse]\<rparr>)) \<and>
   (stdin w = l # l2 # ls \<and> pos_response L (lower (strip l)) \<and>
      length (split CHR '','' l2) \<noteq> length chain_lengths
      \<longrightarrow> ask_user_for_rt L lp w =
          ask_user_for_rt L lp
            (w\<lparr>stdin := ls, stdout := stdout w @ [AskDetect, AskRtValues, InvalidCount],
               logfile := logfile w @ [OptedIn]\<rparr>)) \<and>
   (stdin w = l # ls \<and> 1 < length (closest_rt L df t rt (float_round L (5 / 100))) \<and>
      close_matches_figure (filter (at_time t) df) sid c = None \<and>
      lower (strip l) \<noteq> ''none'' \<and> py_int (lower (strip l)) = None
      \<longrightarrow> classify_entry L df t sid (c, Some rt) w = Inl ValueError)"
proof (intro conjI impI)
  assume h: "stdin w = l # ls \<and> \<not> pos_response L (lower (strip l)) \<and>
             \<not> neg_response L (lower (strip l))"
  let ?w1 = "w\<lparr>stdin := ls, stdout := stdout w @ [AskDetect]\<rparr>"
  from h have i: "input AskDetect w = Inr (l, ?w1)"
    by (simp add: input_Cons)
  have e: "print InvalidResponse ?w1
             = w\<lparr>stdin := ls, stdout := stdout w @ [AskDetect, InvalidResponse]\<rparr>"
    by (cases w) (simp add: print_def)
  from h i have "ask_user_for_rt L lp w = ask_user_for_rt L lp (print InvalidResponse ?w1)"
    by (subst ask_user_for_rt.simps) (simp add: Let_def)
  with e show "ask_user_for_rt L lp w =
          ask_user_for_rt L lp
            (w\<lparr>stdin := ls, stdout := stdout w @ [AskDetect, InvalidResponse]\<rparr>)"
    by simp
next
  assume h: "stdin w = l # l2 # ls \<and> pos_response L (lower (strip l)) \<and>
             length (split CHR '','' l2) \<noteq> length chain_lengths"
  let ?w1 = "w\<lparr>stdin := l2 # ls, stdout := stdout w @ [AskDetect]\<rparr>"
  let ?w2 = "(append_to_log lp OptedIn ?w1)
               \<lparr>stdin := ls, stdout := stdout (append_to_log lp OptedIn ?w1) @ [AskRtValues]\<rparr>"
  from h have i: "input AskDetect w = Inr (l, ?w1)"
    by (simp add: input_Cons)
  have j: "input AskRtValues (append_to_log lp OptedIn ?w1) = Inr (l2, ?w2)"
    by (rule input_Cons) (simp add: append_to_log_def)
  have e: "print InvalidCount ?w2
             = w\<lparr>stdin := ls, stdout := stdout w @ [AskDetect, AskRtValues, InvalidCount],
                  logfile := logfile w @ [OptedIn]\<rparr>"
    by (cases w) (simp add: print_def append_to_log_def)
  from h i j have "ask_user_for_rt L lp w = ask_user_for_rt L lp (print InvalidCount ?w2)"
    by (subst ask_user_for_rt.simps) (simp add: Let_def)
  with e show "ask_user_for_rt L lp w =
          ask_user_for_rt L lp
            (w\<lparr>stdin := ls, stdout := stdout w @ [AskDetect, AskRtValues, InvalidCount],
               logfile := logfile w @ [OptedIn]\<rparr>)"
    by simp
next
  assume h: "stdin w = l # ls \<and> 1 < length (closest_rt L df t rt (float_round L (5 / 100))) \<and>
             close_matches_figure (filter (at_time t) df) sid c = None \<and>
             lower (strip l) \<noteq> ''none'' \<and> py_int (lower (strip l)) = None"
  then show "classify_entry L df t sid (c, Some rt) w = Inl ValueError"
    by (simp add: classify_entry_def input_Cons Let_def)
qed

theorem invalid_input_handling_witness:
  "ask_user_for_rt example_lib ''out/Log file.txt'' (terminal [''maybe'', ''1,2'', ''n''])
     = ask_user_for_rt example_lib ''out/Log file.txt''
         \<lparr>stdin = [''1,2'', ''n''], stdout = [AskDetect, InvalidResponse], logfile = []\<rparr> \<and>
   ask_user_for_rt example_lib ''out/Log file.txt'' (terminal [''Y'', ''1,2'', ''n''])
     = ask_user_for_rt example_lib ''out/Log file.txt''
         \<lparr>stdin = [''n''], stdout = [AskDetect, AskRtValues, InvalidCount],
          logfile = [OptedIn]\<rparr> \<and>
   ask_user_for_rt example_lib ''out/Log file.txt'' (terminal [''Y'', ''1,2'', ''n''])
     = Inr (None, \<lparr>stdin = [],
                   stdout = [AskDetect, AskRtValues, InvalidCount, AskDetect, NotSelected],
                   logfile = [OptedIn, OptedOut]\<rparr>) \<and>
   classify_entry example_lib near_tie_group ''11:30:00'' ''sample 8'' (''C16'', Some 500)
       (terminal [''abc''])
     = Inl ValueError"
proof -
  have a: "\<not> pos_response example_lib (lower (strip ''maybe'')) \<and>
           \<not> neg_response example_lib (lower (strip ''maybe''))"
    by code_simp
  have b: "pos_response example_lib (lower (strip ''Y'')) \<and>
           length (split CHR '','' ''1,2'') \<noteq> length chain_lengths"
    by code_simp
  have c: "1 < length (closest_rt example_lib near_tie_group ''11:30:00'' 500
                         (float_round example_lib (5 / 100))) \<and>
           close_matches_figure (filter (at_time ''11:30:00'') near_tie_group) ''sample 8'' ''C16''
             = None \<and>
           lower (strip ''abc'') \<noteq> ''none'' \<and> py_int (lower (strip ''abc'')) = None"
    by code_simp
  have d: "ask_user_for_rt example_lib ''out/Log file.txt'' (terminal [''Y'', ''1,2'', ''n''])
     = Inr (None, \<lparr>stdin = [],
                   stdout = [AskDetect, AskRtValues, InvalidCount, AskDetect, NotSelected],
                   logfile = [OptedIn, OptedOut]\<rparr>)"
    by code_simp
  note t1 = invalid_input_handling
      [where w = "terminal [''maybe'', ''1,2'', ''n'']" and l = "''maybe''"
         and ls = "[''1,2'', ''n'']" and L = example_lib and lp = "''out/Log file.txt''"]
  note t2 = invalid_input_handling
      [where w = "terminal [''Y'', ''1,2'', ''n'']" and l = "''Y''" and ?l2.0 = "''1,2''"
         and ls = "[''n'']" and L = example_lib and lp = "''out/Log file.txt''"]
  note t3 = invalid_input_handling
      [where w = "terminal [''abc'']" and l = "''abc''" and ls = "[]" and L = example_lib
         and df = near_tie_group and t = "''11:30:00''" and rt = 500 and sid = "''sample 8''"
         and c = "''C16''"]
  from t1 a have 1: "ask_user_for_rt example_lib ''out/Log file.txt'' (terminal [''maybe'', ''1,2'', ''n''])
     = ask_user_for_rt example_lib ''out/Log file.txt''
         \<lparr>stdin = [''1,2'', ''n''], stdout = [AskDetect, InvalidResponse], logfile = []\<rparr>"
    by (simp add: terminal_def)
  from t2 b have 2: "ask_user_for_rt example_lib ''out/Log file.txt'' (terminal [''Y'', ''1,2'', ''n''])
     = ask_user_for_rt example_lib ''out/Log file.txt''
         \<lparr>stdin = [''n''], stdout = [AskDetect, AskRtValues, InvalidCount],
          logfile = [OptedIn]\<rparr>"
    by (simp add: terminal_def)
  from t3 c have 3: "classify_entry example_lib near_tie_group ''11:30:00'' ''sample 8''
                       (''C16'', Some 500) (terminal [''abc'']) = Inl ValueError"
    by (simp add: terminal_def)
  from 1 2 3 d show ?thesis by simp
qed

section \<open>The classifier\<close>

lemma min_list_le: "x \<in> set xs \<Longrightarrow> min_list xs \<le> (x :: 'a :: linorder)"
  by (cases "xs = []") (simp_all add: min_list_Min)

lemma min_list_mem: "xs \<noteq> [] \<Longrightarrow> min_list xs \<in> set (xs :: 'a :: linorder list)"
  by (simp add: min_list_Min)

lemma min_list_abs:
  assumes "0 \<in> set (map (\<lambda>r. \<bar>f r :: rat\<bar>) g)"
  shows "min_list (map (\<lambda>r. \<bar>f r\<bar>) g) = 0"
proof -
  let ?d = "map (\<lambda>r. \<bar>f r\<bar>) g"
  from assms have "0 < length ?d" by (rule length_pos_if_in_set)
  then have ne: "?d \<noteq> []" by auto
  have le: "min_list ?d \<le> 0" by (rule min_list_le [OF assms])
  have "min_list ?d \<in> set ?d" by (rule min_list_mem [OF ne])
  then have "min_list ?d \<in> (\<lambda>r. \<bar>f r\<bar>) ` set g" by (simp only: set_map)
  then obtain r where "min_list ?d = \<bar>f r\<bar>" by (rule imageE)
  then have "0 \<le> min_list ?d" by simp
  with le show ?thesis by (rule antisym)
qed

text \<open>When a row of the group sits at the reference retention time itself, the
  smallest difference is 0 and so is the band: the rows whose difference to the
  reference is 0 qualify and no other row does.\<close>

lemma closest_rt_exact:
  assumes a: "a \<in> set df" "at_time t a" "Rt a = R" and zero: "float_round L 0 = 0"
  shows "closest_rt L df t R th
           = filter (\<lambda>r. at_time t r \<and> float_round L (Rt r - R) = 0) df"
proof -
  let ?f = "\<lambda>r. float_round L (Rt r - R)"
  let ?g = "filter (at_time t) df"
  let ?d = "map (\<lambda>r. \<bar>?f r\<bar>) ?g"
  from a have "a \<in> set ?g" by simp
  then have "\<bar>?f a\<bar> \<in> (\<lambda>r. \<bar>?f r\<bar>) ` set ?g" by (rule imageI)
  then have "\<bar>?f a\<bar> \<in> set ?d" by (simp only: set_map)
  moreover have "\<bar>?f a\<bar> = 0" by (simp add: a(3) zero)
  ultimately have mem: "0 \<in> set ?d" by (simp only:)
  then have m: "min_list ?d = 0" by (rule min_list_abs)
  from mem have "0 < length ?d" by (rule length_pos_if_in_set)
  then have ne: "?d \<noteq> []" by auto
  have "closest_rt L df t R th
          = filter (\<lambda>r. \<bar>?f r\<bar> \<le> float_round L (min_list ?d * float_round L (1 + th))) ?g"
    using ne by (simp add: closest_rt_def Let_def)
  also have "\<dots> = filter (\<lambda>r. \<bar>?f r\<bar> \<le> 0) ?g"
    by (simp only: m mult_zero_left zero)
  also have "\<dots> = filter (\<lambda>r. at_time t r \<and> float_round L (Rt r - R) = 0) df"
    by simp
  finally show ?thesis .
qed

text \<open>
  C1, as the claim states it, fails: of the rows at 500 and 500.01 only the one at 500
  qualifies, and the classifier labels it without asking (nothing is read from the
  operator and nothing is written).
\<close>

theorem exact_match_counterexample:
  "closest_rt example_lib exact_group ''11:00:00'' 500 (5 / 100) = [exact_group ! 0] \<and>
   process_dataframe example_lib exact_group (Some [(''C16'', Some 500)]) ''out''
       ''out/Log file.txt'' (terminal [])
     = Inr ([(exact_group ! 0)\<lparr>chain := Some ''C16''\<rparr>],
            \<lparr>stdin = [], stdout = [], logfile = [ChainsIdentified [Some ''C16'']]\<rparr>)"
  by code_simp

text \<open>
  C1, amended.  For a group of two rows, one at the reference retention time \<open>R\<close> and
  one at another retention time (its difference to \<open>R\<close> does not round to 0, as for 500
  and 500.01), and threshold 0.05, only the row at \<open>R\<close> qualifies (the smallest
  difference is 0, so the band around it is 0 wide), and the classifier assigns the
  chain label to that row without entering the interactive step: the operator's terminal
  is left as it was.
\<close>

theorem exact_match_assigned:
  assumes "Time a = t" "Time b = t" "t \<noteq> []" "Rt a = R"
    and "float_round L 0 = 0" "float_round L (Rt b - R) \<noteq> 0"
  shows "closest_rt L [a, b] t R (float_round L (5 / 100)) = [a] \<and>
         classify_entry L [a, b] t sid (c, Some R) w
           = Inr ([a\<lparr>chain := Some c\<rparr>, b], w)"
proof -
  from assms have at: "at_time t a" "at_time t b" by (simp_all add: at_time_def)
  have "closest_rt L [a, b] t R (float_round L (5 / 100))
          = filter (\<lambda>r. at_time t r \<and> float_round L (Rt r - R) = 0) [a, b]"
    by (rule closest_rt_exact [of a]) (simp_all add: at assms)
  with at assms have cl: "closest_rt L [a, b] t R (float_round L (5 / 100)) = [a]"
    by simp
  from assms(6) assms(5) have "Rt b \<noteq> R" by auto
  with cl at assms(4) show ?thesis
    by (simp add: classify_entry_def assign_chain_def)
qed

theorem exact_match_assigned_witness:
  "closest_rt example_lib [exact_group ! 0, exact_group ! 1] ''11:00:00'' 500
       (float_round example_lib (5 / 100)) = [exact_group ! 0] \<and>
   classify_entry example_lib [exact_group ! 0, exact_group ! 1] ''11:00:00'' ''sample 7''
       (''C16'', Some 500) (terminal [])
     = Inr ([(exact_group ! 0)\<lparr>chain := Some ''C16''\<rparr>, exact_group ! 1], terminal [])"
proof -
  have h: "Time (exact_group ! 0) = ''11:00:00''" "Time (exact_group ! 1) = ''11:00:00''"
          "''11:00:00'' \<noteq> []" "Rt (exact_group ! 0) = 500"
          "float_round example_lib 0 = 0"
          "float_round example_lib (Rt (exact_group ! 1) - 500) \<noteq> 0"
    by code_simp+
  show ?thesis by (rule exact_match_assigned [OF h])
qed

end
